theory Spec2Isabelle
  imports Main "HOL-Library.Sublist"
begin

section \<open>Strings and characters\<close>

text \<open>
  JavaScript strings are modelled as \<^typ>\<open>string\<close>: a list of 8-bit characters, read as
  the code units U+0000 .. U+00FF. The strings the installer inspects (the output of
  \<^verbatim>\<open>shtool platform\<close>, of \<^verbatim>\<open>npm config get proxy\<close>, \<^verbatim>\<open>process.platform\<close>,
  \<^verbatim>\<open>process.arch\<close>) are of this kind.
\<close>

definition code :: "char \<Rightarrow> nat" where
  "code c = of_char c"

definition LF :: char where "LF = CHR 0x0A"
definition CR :: char where "CR = CHR 0x0D"
definition DQ :: char where "DQ = CHR 0x22"

text \<open>\<^verbatim>\<open>String.prototype.toLowerCase\<close> on one code unit below U+0100.\<close>

definition lower_char :: "char \<Rightarrow> char" where
  "lower_char c =
     (let n = code c
      in if (65 \<le> n \<and> n \<le> 90) \<or> (192 \<le> n \<and> n \<le> 222 \<and> n \<noteq> 215)
         then char_of (n + 32) else c)"

definition toLowerCase :: "string \<Rightarrow> string" where
  "toLowerCase s = map lower_char s"

text \<open>Template literals print \<^verbatim>\<open>PRINCE_VERSION\<close>, a number, in decimal.\<close>

fun dec :: "nat \<Rightarrow> string" where
  "dec n = (if n < 10 then [''0123456789'' ! n]
            else dec (n div 10) @ [''0123456789'' ! (n mod 10)])"

declare dec.simps [simp del]

text \<open>\<^verbatim>\<open>path.join\<close> of two segments that need no normalisation.\<close>

definition path_join :: "string \<Rightarrow> string \<Rightarrow> string" where
  "path_join a b = a @ ''/'' @ b"

section \<open>Regular expressions\<close>

text \<open>
  The regular expressions of \<^verbatim>\<open>prince-npm.js\<close> use character classes, bounded and
  unbounded greedy repetition of a class, one starred group, capture groups and the
  end-of-input anchor. The matcher below is the backtracking matcher of ECMAScript
  restricted to these constructs: \<open>rx_run r (g, s)\<close> lists, in the order in which
  backtracking tries them, the captures and the unread input after \<open>r\<close> has matched a
  prefix of \<open>s\<close>.
\<close>

datatype cls =
    Lit char          \<comment> \<open>one literal character\<close>
  | OneOf string      \<comment> \<open>\<^verbatim>\<open>[45]\<close>\<close>
  | Digit             \<comment> \<open>\<^verbatim>\<open>[0-9]\<close>, \<^verbatim>\<open>\d\<close>\<close>
  | Alpha             \<comment> \<open>\<^verbatim>\<open>[a-zA-Z]\<close>\<close>
  | AlphaNum          \<comment> \<open>\<^verbatim>\<open>[a-zA-Z0-9]\<close>\<close>
  | Dot               \<comment> \<open>\<^verbatim>\<open>.\<close>: anything but a line terminator\<close>

definition is_digit :: "char \<Rightarrow> bool" where
  "is_digit c = (48 \<le> code c \<and> code c \<le> 57)"

definition is_alpha :: "char \<Rightarrow> bool" where
  "is_alpha c = ((65 \<le> code c \<and> code c \<le> 90) \<or> (97 \<le> code c \<and> code c \<le> 122))"

fun cls_ok :: "cls \<Rightarrow> char \<Rightarrow> bool" where
  "cls_ok (Lit c) x = (x = c)"
| "cls_ok (OneOf cs) x = (x \<in> set cs)"
| "cls_ok Digit x = is_digit x"
| "cls_ok Alpha x = is_alpha x"
| "cls_ok AlphaNum x = (is_alpha x \<or> is_digit x)"
| "cls_ok Dot x = (x \<noteq> LF \<and> x \<noteq> CR)"

datatype rx =
    Sym cls                     \<comment> \<open>one character of a class\<close>
  | Rep cls nat "nat option"    \<comment> \<open>greedy \<^verbatim>\<open>c{lo,hi}\<close>; no upper bound when \<open>None\<close>\<close>
  | Seq rx rx
  | Star rx                     \<comment> \<open>greedy \<^verbatim>\<open>(?:r)*\<close>\<close>
  | Grp nat rx                  \<comment> \<open>capture group number \<open>n\<close>\<close>
  | Eol                         \<comment> \<open>\<^verbatim>\<open>$\<close> without the \<^verbatim>\<open>m\<close> flag\<close>

type_synonym caps = "(nat \<times> string) list"
type_synonym mstate = "caps \<times> string"

text \<open>The repetition counts a greedy \<^verbatim>\<open>c{lo,hi}\<close> tries on \<open>s\<close>, longest first.\<close>

definition counts :: "cls \<Rightarrow> nat \<Rightarrow> nat option \<Rightarrow> string \<Rightarrow> nat list" where
  "counts c lo hi s =
     (let n = length (takeWhile (cls_ok c) s);
          m = (case hi of None \<Rightarrow> n | Some h \<Rightarrow> min h n)
      in rev [lo..<Suc m])"

function rx_run :: "rx \<Rightarrow> mstate \<Rightarrow> mstate list" where
  "rx_run (Sym c) (g, s) =
     (case s of [] \<Rightarrow> [] | x # t \<Rightarrow> if cls_ok c x then [(g, t)] else [])"
| "rx_run (Rep c lo hi) (g, s) = map (\<lambda>k. (g, drop k s)) (counts c lo hi s)"
| "rx_run (Seq a b) (g, s) = concat (map (rx_run b) (rx_run a (g, s)))"
| "rx_run (Star r) (g, s) =
     concat (map (rx_run (Star r))
                 (filter (\<lambda>st. length (snd st) < length s) (rx_run r (g, s))))
     @ [(g, s)]"
| "rx_run (Grp n r) (g, s) =
     map (\<lambda>st. ((n, take (length s - length (snd st)) s) # fst st, snd st)) (rx_run r (g, s))"
| "rx_run Eol (g, s) = (if s = [] then [(g, s)] else [])"
  by pat_completeness auto
termination
  by (relation "inv_image (less_than <*lex*> less_than) (\<lambda>(r, g, s). (size r, length s))")
     auto

text \<open>The equation of \<open>Star\<close> calls itself; it is unfolded by hand only.\<close>

declare rx_run.simps(4) [simp del]

text \<open>A pattern that starts with \<^verbatim>\<open>^\<close> is tried at index 0 only.\<close>

definition rx_at_start :: "rx \<Rightarrow> string \<Rightarrow> mstate option" where
  "rx_at_start r s = (case rx_run r ([], s) of [] \<Rightarrow> None | st # _ \<Rightarrow> Some st)"

text \<open>Any other pattern is tried at index 0, 1, .. up to the length of the input.\<close>

fun rx_try :: "rx \<Rightarrow> string \<Rightarrow> nat list \<Rightarrow> (nat \<times> mstate) option" where
  "rx_try r s [] = None"
| "rx_try r s (i # is) =
     (case rx_at_start r (drop i s) of
        Some st \<Rightarrow> Some (i, st)
      | None \<Rightarrow> rx_try r s is)"

definition rx_search :: "rx \<Rightarrow> string \<Rightarrow> (nat \<times> mstate) option" where
  "rx_search r s = rx_try r s [0..<Suc (length s)]"

text \<open>The value of capture group \<open>n\<close>: the innermost, latest binding.\<close>

definition group :: "caps \<Rightarrow> nat \<Rightarrow> string option" where
  "group g n = map_of g n"

text \<open>Text of a group; the groups read below take part in every match of their pattern.\<close>

definition group_text :: "caps \<Rightarrow> nat \<Rightarrow> string" where
  "group_text g n = (case group g n of Some x \<Rightarrow> x | None \<Rightarrow> [])"

text \<open>\<^verbatim>\<open>re.test(s)\<close> for a pattern that starts with \<^verbatim>\<open>^\<close>.\<close>

definition rx_test :: "rx \<Rightarrow> string \<Rightarrow> bool" where
  "rx_test r s = (rx_at_start r s \<noteq> None)"

text \<open>\<^verbatim>\<open>s.replace(re, "")\<close> for a pattern without the \<^verbatim>\<open>g\<close> flag: the first match goes.\<close>

definition replace_empty :: "rx \<Rightarrow> string \<Rightarrow> string" where
  "replace_empty r s =
     (case rx_search r s of
        None \<Rightarrow> s
      | Some (i, g, t) \<Rightarrow> take i s @ t)"

section \<open>Errors, promises\<close>

datatype js_error =
    Error string            \<comment> \<open>\<^verbatim>\<open>new Error(msg)\<close>\<close>
  | TypeError               \<comment> \<open>raised by the engine or by argument validation\<close>
  | ReferenceError string   \<comment> \<open>an identifier that is not in scope\<close>
  | External string         \<comment> \<open>an error handed over by a callback of the environment\<close>

datatype 'a promise = Pending | Fulfilled 'a | Rejected js_error

text \<open>\<^verbatim>\<open>resolve\<close> and \<^verbatim>\<open>reject\<close> only act on a promise that is still pending.\<close>

fun settle :: "'a promise \<Rightarrow> 'a promise \<Rightarrow> 'a promise" where
  "settle Pending q = q"
| "settle p q = p"

text \<open>
  What a call leaves behind: the state of the promise it returned, and the exception
  that escaped without settling that promise, if any (thrown from a callback of the event
  loop, or thrown inside an \<^verbatim>\<open>async\<close> promise executor, whose own promise nobody
  holds).
\<close>

record 'a run =
  promise :: "'a promise"
  escaped :: "js_error option"

definition resolved :: "'a \<Rightarrow> 'a run" where
  "resolved v = \<lparr>promise = Fulfilled v, escaped = None\<rparr>"

definition thrown :: "js_error \<Rightarrow> 'a run" where
  "thrown e = \<lparr>promise = Pending, escaped = Some e\<rparr>"

definition idle :: "'a run" where
  "idle = \<lparr>promise = Pending, escaped = None\<rparr>"

text \<open>
  \<^verbatim>\<open>await p\<close> inside the \<^verbatim>\<open>async\<close> executor: it goes on with the value, throws the
  rejection, or never resumes (the awaited promise stays pending, or the process has died
  of the exception that escaped the callback).
\<close>

definition await :: "'a run \<Rightarrow> ('a \<Rightarrow> 'b run) \<Rightarrow> 'b run" where
  "await p k =
     (case escaped p of
        Some e \<Rightarrow> thrown e
      | None \<Rightarrow>
          (case promise p of
             Fulfilled v \<Rightarrow> k v
           | Rejected e \<Rightarrow> thrown e
           | Pending \<Rightarrow> idle))"

section \<open>Platform identifier: \<^verbatim>\<open>getLinuxOSInfo\<close>\<close>

record os_info =
  osCPUArch :: string
  osName :: string
  osVersion :: string

text \<open>
  \<^verbatim>\<open>([a-zA-Z0-9].*)\-([a-zA-Z]{1,10})([0-9]{1,5}.[0-9]{1,5}.?[0-9]{1,5})\<close> with the
  \<^verbatim>\<open>i\<close> flag. The pattern is built from a string, so each \<^verbatim>\<open>.\<close> is the any-character
  class. Under \<^verbatim>\<open>i\<close> the letter classes accept the ASCII letters and no other code unit
  below U+0100.
\<close>

definition osRegex :: rx where
  "osRegex =
     Seq (Grp 1 (Seq (Sym AlphaNum) (Rep Dot 0 None)))
    (Seq (Sym (Lit CHR ''-''))
    (Seq (Grp 2 (Rep Alpha 1 (Some 10)))
         (Grp 3 (Seq (Rep Digit 1 (Some 5))
                (Seq (Sym Dot)
                (Seq (Rep Digit 1 (Some 5))
                (Seq (Rep Dot 0 (Some 1))
                     (Rep Digit 1 (Some 5)))))))))"

text \<open>
  The callback of \<^verbatim>\<open>child_process.exec\<close>, given the error (if any) and the standard
  output of \<^verbatim>\<open>sh shtool platform -t binary\<close>. After \<^verbatim>\<open>reject(error)\<close> the callback
  goes on; destructuring a \<^verbatim>\<open>null\<close> match throws a \<^verbatim>\<open>TypeError\<close> out of the callback.
  \<^verbatim>\<open>getLinuxOSInfo\<close> is an \<^verbatim>\<open>async\<close> function that returns the promise it builds, so
  the promise the caller holds follows that inner promise one turn of the job queue later:
  it is still pending when the exception escapes the callback.
\<close>

definition getLinuxOSInfo :: "js_error option \<Rightarrow> string \<Rightarrow> os_info run" where
  "getLinuxOSInfo error stdout =
     (let inner = (case error of Some e \<Rightarrow> Rejected e | None \<Rightarrow> Pending)
      in case rx_search osRegex (toLowerCase stdout) of
           None \<Rightarrow> \<lparr>promise = Pending, escaped = Some TypeError\<rparr>
         | Some (i, g, t) \<Rightarrow>
             \<lparr>promise = settle inner (Fulfilled \<lparr>osCPUArch = group_text g 1,
                                                 osName = group_text g 2,
                                                 osVersion = group_text g 3\<rparr>),
              escaped = None\<rparr>)"

section \<open>Artifact resolver: \<^verbatim>\<open>princeDownloadURL\<close>\<close>

definition PRINCE_VERSION :: nat where
  "PRINCE_VERSION = 14"

definition download_url :: "string \<Rightarrow> string" where
  "download_url artifact =
     ''https://www.princexml.com/download/prince-'' @ dec PRINCE_VERSION @ ''-'' @ artifact"

text \<open>\<^verbatim>\<open>\.\d+\<close>, and \<^verbatim>\<open>(?:\.\d+)*$\<close>, the tail of every version pattern.\<close>

definition dot_digits :: rx where
  "dot_digits = Seq (Sym (Lit CHR ''.'')) (Rep Digit 1 None)"

definition dotted_tail :: rx where
  "dotted_tail = Seq (Star dot_digits) Eol"

text \<open>\<^verbatim>\<open>/^1[45](?:\.\d+)*$/\<close> and its three siblings: a digit, one digit of a set, the tail.\<close>

definition version_rx :: "char \<Rightarrow> string \<Rightarrow> rx" where
  "version_rx d ds = Seq (Sym (Lit d)) (Seq (Sym (OneOf ds)) dotted_tail)"

definition quoted :: "string \<Rightarrow> string" where
  "quoted s = [DQ] @ s @ [DQ]"

definition unknown_version :: "string \<Rightarrow> js_error" where
  "unknown_version v = Error (''Unknown os version: '' @ v)"

definition unsupported_arch :: "string \<Rightarrow> js_error" where
  "unsupported_arch a = Error (''Unsupported architecture: '' @ quoted a)"

text \<open>The \<^verbatim>\<open>case 'ubuntu'\<close> block of the inner \<^verbatim>\<open>switch(osName)\<close>.\<close>

definition ubuntu_url :: "os_info \<Rightarrow> string run" where
  "ubuntu_url info =
     (let v = osVersion info
      in if osCPUArch info = ''amd64'' then
           (if rx_test (version_rx CHR ''1'' ''45'') v
              then resolved (download_url ''ubuntu14.04-amd64.tar.gz'')
            else if rx_test (version_rx CHR ''1'' ''67'') v
              then resolved (download_url ''ubuntu16.04-amd64.tar.gz'')
            else if rx_test (version_rx CHR ''1'' ''89'') v
              then resolved (download_url ''ubuntu18.04-amd64.tar.gz'')
            else if rx_test (version_rx CHR ''2'' ''01'') v
              then resolved (download_url ''ubuntu20.04-amd64.tar.gz'')
            else thrown (unknown_version v))
         else if osCPUArch info = ''ix86'' then
           (if rx_test (version_rx CHR ''1'' ''45'') v
              then resolved (download_url ''ubuntu14.04-i386.tar.gz'')
            else if rx_test (version_rx CHR ''1'' ''67'') v
              then resolved (download_url ''ubuntu16.04-i386.tar.gz'')
            else if rx_test (version_rx CHR ''1'' ''89'') v
              then resolved (download_url ''ubuntu18.04-i386.tar.gz'')
            else thrown (unknown_version v))
         else thrown (unsupported_arch (osCPUArch info)))"

text \<open>
  The executor of the promise \<^verbatim>\<open>princeDownloadURL\<close> returns, as a function of
  \<^verbatim>\<open>process.platform\<close>, \<^verbatim>\<open>process.arch\<close> and the outcome of the OS probe. The executor is
  an \<^verbatim>\<open>async\<close> function that takes \<^verbatim>\<open>resolve\<close> only: what it throws never settles the
  returned promise.

  The outer \<^verbatim>\<open>switch(platform)\<close> has the cases \<^verbatim>\<open>"wind32"\<close>, \<^verbatim>\<open>"darwin"\<close>,
  \<^verbatim>\<open>"linux"\<close>, \<^verbatim>\<open>'debian'\<close>, \<^verbatim>\<open>'centos'\<close>, \<^verbatim>\<open>'alpine'\<close> and \<^verbatim>\<open>default\<close>. The
  inner \<^verbatim>\<open>switch(osName)\<close> of the \<^verbatim>\<open>"linux"\<close> case has the single case \<^verbatim>\<open>'ubuntu'\<close>
  and no default. The cases \<^verbatim>\<open>'debian'\<close>, \<^verbatim>\<open>'centos'\<close> and \<^verbatim>\<open>'alpine'\<close> start with
  \<^verbatim>\<open>switch(osCPUArch)\<close>, outside the block that declares \<^verbatim>\<open>osCPUArch\<close>: evaluating the
  discriminant throws a \<^verbatim>\<open>ReferenceError\<close> and their bodies are never entered.
\<close>

definition princeDownloadURL :: "string \<Rightarrow> string \<Rightarrow> os_info run \<Rightarrow> string run" where
  "princeDownloadURL platform arch probe =
     (if platform = ''wind32'' then
        (if arch = ''x64'' then resolved (download_url ''win64-setup.exe'')
         else if arch = ''ia32'' \<or> arch = ''x32'' then resolved (download_url ''win32-setup.exe'')
         else thrown (Error (''Unsupported architecture: '' @ arch)))
      else if platform = ''darwin'' then
        await probe (\<lambda>osInfo. resolved (download_url ''macos.zip''))
      else if platform = ''linux'' then
        await probe (\<lambda>info. if osName info = ''ubuntu'' then ubuntu_url info else idle)
      else if platform = ''debian'' \<or> platform = ''centos'' \<or> platform = ''alpine'' then
        thrown (ReferenceError ''osCPUArch'')
      else thrown (Error (''Unsupported platform: '' @ quoted platform)))"

section \<open>Fetcher: \<^verbatim>\<open>downloadData\<close>\<close>

text \<open>\<^verbatim>\<open>/\r?\n$/\<close> and \<^verbatim>\<open>/^https?:\/\/.+/\<close>.\<close>

definition eol_rx :: rx where
  "eol_rx = Seq (Rep (Lit CR) 0 (Some 1)) (Seq (Sym (Lit LF)) Eol)"

definition proxy_rx :: rx where
  "proxy_rx =
     Seq (Sym (Lit CHR ''h'')) (Seq (Sym (Lit CHR ''t'')) (Seq (Sym (Lit CHR ''t''))
    (Seq (Sym (Lit CHR ''p'')) (Seq (Rep (Lit CHR ''s'') 0 (Some 1))
    (Seq (Sym (Lit CHR '':'')) (Seq (Sym (Lit CHR ''/'')) (Seq (Sym (Lit CHR ''/''))
         (Rep Dot 1 None))))))))"

record proxy_choice =
  proxy :: "string option"     \<comment> \<open>\<^verbatim>\<open>options.proxy\<close>, unset when \<open>None\<close>\<close>
  npm_asked :: bool            \<comment> \<open>whether \<^verbatim>\<open>npm config get proxy\<close> was run\<close>
  proxy_log :: "string list"

text \<open>
  The inner promise of \<^verbatim>\<open>downloadData\<close>, given \<^verbatim>\<open>process.env.http_proxy\<close> (a string
  or undefined) and what \<^verbatim>\<open>npm config get proxy\<close> answers if it is run. \<open>npm_proxy\<close> is
  the \<^verbatim>\<open>else\<close> branch: the callback of \<^verbatim>\<open>child_process.exec\<close>.
\<close>

definition npm_proxy :: "js_error option \<times> string \<Rightarrow> proxy_choice" where
  "npm_proxy npm =
     (case npm of
        (None, stdout) \<Rightarrow>
          (let out = replace_empty eol_rx stdout
           in if rx_test proxy_rx out then
                \<lparr>proxy = Some out, npm_asked = True,
                 proxy_log = [''-- using proxy (npm config get proxy): '' @ out]\<rparr>
              else \<lparr>proxy = None, npm_asked = True, proxy_log = []\<rparr>)
      | (Some e, stdout) \<Rightarrow> \<lparr>proxy = None, npm_asked = True, proxy_log = []\<rparr>)"

definition choose_proxy :: "string option \<Rightarrow> js_error option \<times> string \<Rightarrow> proxy_choice" where
  "choose_proxy http_proxy npm =
     (case http_proxy of
        Some p \<Rightarrow>
          if p \<noteq> [] then
            \<lparr>proxy = Some p, npm_asked = False,
             proxy_log = [''-- using proxy ($http_proxy): '' @ p]\<rparr>
          else npm_proxy npm
      | None \<Rightarrow> npm_proxy npm)"

text \<open>The request that goes out, and the answer of the server.\<close>

record request_options =
  req_method :: string
  req_url :: string
  req_proxy :: "string option"

record http_answer =
  http_error :: "string option"
  status :: nat
  body :: string

record download =
  request :: request_options
  asked_npm :: bool
  payload :: "string promise"
  dl_log :: "string list"

definition downloadData ::
    "string \<Rightarrow> string option \<Rightarrow> js_error option \<times> string \<Rightarrow> http_answer \<Rightarrow> download" where
  "downloadData url http_proxy npm answer =
     (let c = choose_proxy http_proxy npm
      in \<lparr>request = \<lparr>req_method = ''GET'', req_url = url, req_proxy = proxy c\<rparr>,
          asked_npm = npm_asked c,
          payload =
            (if http_error answer = None \<and> status answer = 200 then Fulfilled (body answer)
             else Rejected (External (''download failed: '' @
                    (case http_error answer of None \<Rightarrow> ''null'' | Some e \<Rightarrow> e)))),
          dl_log = proxy_log c @ [''-- download: '' @ url] @
            (if http_error answer = None \<and> status answer = 200
             then [''-- download: '' @ dec (length (body answer)) @ '' bytes received.'']
             else [])\<rparr>)"

section \<open>Archive installer\<close>

text \<open>
  The calls the installer makes on the file system and on child processes, in the order
  it makes them. \<^verbatim>\<open>removeTmpDir\<close> can be called with an undefined path.
\<close>

datatype fs_op =
    Mkdtemp string
  | WriteFile string
  | Unzip string string
  | Unlink string
  | Readdir string
  | Stat string
  | Rename string string
  | Chmod string nat
  | Rmdir "string option"
  | Mkdirp string
  | ExtractTar string string nat
  | ExecFile string "string list"


text \<open>A step of an \<^verbatim>\<open>async\<close> body: the value or the exception, and the calls made.\<close>

type_synonym 'a act = "(js_error + 'a) \<times> fs_op list"

definition ret :: "'a \<Rightarrow> 'a act" where
  "ret v = (Inr v, [])"

definition throw :: "js_error \<Rightarrow> 'a act" where
  "throw e = (Inl e, [])"

definition call :: "fs_op \<Rightarrow> js_error + 'a \<Rightarrow> 'a act" where
  "call op out = (out, [op])"

definition bnd :: "'a act \<Rightarrow> ('a \<Rightarrow> 'b act) \<Rightarrow> 'b act" where
  "bnd m f =
     (case m of
        (Inl e, tr) \<Rightarrow> (Inl e, tr)
      | (Inr v, tr) \<Rightarrow> (case f v of (r, tr') \<Rightarrow> (r, tr @ tr')))"

text \<open>
  \<^verbatim>\<open>saveFileToDisk\<close> builds a promise around \<^verbatim>\<open>fs.writeFile\<close> and does not return it:
  the promise the caller awaits is fulfilled at once, whatever becomes of the write. When
  the write fails, the inner promise, which nobody holds, is rejected.
\<close>

definition saveFileToDisk :: "js_error + unit \<Rightarrow> unit run" where
  "saveFileToDisk out =
     \<lparr>promise = Fulfilled (),
      escaped = (case out of Inl e \<Rightarrow> Some e | Inr _ \<Rightarrow> None)\<rparr>"

text \<open>
  The answers of the environment on the macOS path, to the calls the \<^verbatim>\<open>async\<close> body
  awaits. \<open>rmdir_again_out\<close> answers the call of \<^verbatim>\<open>removeTmpDir\<close> in the \<^verbatim>\<open>catch\<close>
  block when the one in the \<^verbatim>\<open>try\<close> block has failed. The body goes on as soon as the write
  of the archive is started, so the archive that \<^verbatim>\<open>unzipArchive\<close> reads, hence what it
  extracts, is the environment's too. \<open>unzip_out\<close> is the answer of the extracting
  stream, the one \<^verbatim>\<open>unzipArchive\<close> listens to.
\<close>

record darwin_env =
  mkdtemp_out :: "js_error + string"
  unzip_out :: "js_error + unit"
  unlink_out :: "js_error + unit"
  readdir_out :: "js_error + string list"
  stat_out :: "js_error + bool"
  rename_out :: "js_error + unit"
  chmod_prince_out :: "js_error + unit"
  chmod_debug_out :: "js_error + unit"
  rmdir_out :: "js_error + unit"
  rmdir_again_out :: "js_error + unit"

text \<open>The mode \<^verbatim>\<open>0o755\<close>.\<close>

definition mode_755 :: nat where
  "mode_755 = 7 * 64 + 5 * 8 + 5"

definition makePrinceExecutable :: "string \<Rightarrow> darwin_env \<Rightarrow> unit act" where
  "makePrinceExecutable dirPath env =
     bnd (call (Chmod (path_join dirPath ''lib/prince/bin/prince'') mode_755) (chmod_prince_out env))
       (\<lambda>_. call (Chmod (path_join dirPath ''lib/prince/bin/princedebug'') mode_755)
                  (chmod_debug_out env))"

text \<open>\<^verbatim>\<open>removeTmpDir\<close>: \<^verbatim>\<open>fs.rmdir\<close> rejects a path that is not a string.\<close>

definition removeTmpDir :: "string option \<Rightarrow> js_error + unit \<Rightarrow> unit act" where
  "removeTmpDir pathToTmp out =
     (case pathToTmp of
        None \<Rightarrow> call (Rmdir None) (Inl TypeError)
      | Some t \<Rightarrow> call (Rmdir (Some t)) out)"

text \<open>The \<^verbatim>\<open>try\<close> block after \<^verbatim>\<open>tempDir\<close> is assigned, up to the last \<^verbatim>\<open>removeTmpDir\<close>.\<close>

definition darwin_body :: "string \<Rightarrow> string \<Rightarrow> darwin_env \<Rightarrow> unit act" where
  "darwin_body destdir tempDir env =
     (let archFileName = path_join tempDir ''prince.zip''
      in bnd (call (WriteFile archFileName) (Inr ()))
        (\<lambda>_. bnd (call (Unzip archFileName tempDir) (unzip_out env))
        (\<lambda>_. bnd (call (Unlink archFileName) (unlink_out env))
        (\<lambda>_. bnd (call (Readdir tempDir) (readdir_out env))
        (\<lambda>files.
           bnd (if files = []
                then throw (Error (''No files found in the temp directory: '' @ tempDir))
                else ret ())
        (\<lambda>_. if length files = 1 then
                bnd (call (Stat (path_join tempDir (hd files))) (stat_out env))
               (\<lambda>isDirectory.
                  bnd (if \<not> isDirectory
                       then throw (Error
                              ''Found one file in the temp directory. Expected a directory'')
                       else ret ())
               (\<lambda>_. bnd (call (Rename (path_join tempDir (hd files)) destdir) (rename_out env))
               (\<lambda>_. makePrinceExecutable destdir env)))
              else ret ()))))))"

text \<open>
  What the \<^verbatim>\<open>async\<close> callback of \<^verbatim>\<open>install\<close> leaves behind: the calls made, the lines
  logged, the exception its promise is rejected with, and the exception thrown by a later
  callback.
\<close>

record unpack =
  ops :: "fs_op list"
  log :: "string list"
  rejected :: "js_error option"
  late :: "js_error option"

definition finish :: "unit act \<Rightarrow> unpack" where
  "finish a =
     \<lparr>ops = snd a, log = [],
      rejected = (case fst a of Inl e \<Rightarrow> Some e | Inr _ \<Rightarrow> None),
      late = None\<rparr>"

text \<open>The \<^verbatim>\<open>catch\<close> block: \<^verbatim>\<open>await removeTmpDir(tempDir); throw error\<close>.\<close>

definition darwin_catch :: "string option \<Rightarrow> js_error + unit \<Rightarrow> js_error \<Rightarrow> unit act" where
  "darwin_catch tempDir out error = bnd (removeTmpDir tempDir out) (\<lambda>_. throw error)"

definition install_darwin :: "string \<Rightarrow> darwin_env \<Rightarrow> unpack" where
  "install_darwin dirname env =
     (let destdir = path_join dirname ''prince''
      in finish
        (case call (Mkdtemp (path_join dirname ''tmp-'')) (mkdtemp_out env) of
           (Inl error, tr) \<Rightarrow> bnd (Inr (), tr) (\<lambda>_. darwin_catch None (rmdir_out env) error)
         | (Inr tempDir, tr) \<Rightarrow>
             (case bnd (Inr (), tr) (\<lambda>_. darwin_body destdir tempDir env) of
                (Inl error, tr1) \<Rightarrow>
                  bnd (Inr (), tr1) (\<lambda>_. darwin_catch (Some tempDir) (rmdir_out env) error)
              | (Inr _, tr1) \<Rightarrow>
                  (case bnd (Inr (), tr1) (\<lambda>_. removeTmpDir (Some tempDir) (rmdir_out env)) of
                     (Inl error, tr2) \<Rightarrow>
                       bnd (Inr (), tr2)
                         (\<lambda>_. darwin_catch (Some tempDir) (rmdir_again_out env) error)
                   | (Inr u, tr2) \<Rightarrow> (Inr u, tr2)))))"

text \<open>An error value concatenated to a string.\<close>

fun err_text :: "js_error \<Rightarrow> string" where
  "err_text (Error m) = ''Error: '' @ m"
| "err_text TypeError = ''TypeError''"
| "err_text (ReferenceError x) = ''ReferenceError: '' @ x @ '' is not defined''"
| "err_text (External m) = m"

text \<open>
  \<^verbatim>\<open>extractTarball\<close> pipes the read stream of the tarball through gunzip into
  \<^verbatim>\<open>tar.extract\<close> and listens to that last stream only. When \<^verbatim>\<open>tar.extract\<close> emits an
  error, the promise is rejected. An error of the read stream or of gunzip has no listener:
  it leaves the callback as an exception and the promise stays pending.
\<close>

datatype extraction =
    Extracted
  | TarError js_error       \<comment> \<open>emitted by \<^verbatim>\<open>tar.extract\<close>\<close>
  | StreamError js_error    \<comment> \<open>emitted by the read stream or by gunzip\<close>

text \<open>
  The Linux path: the tarball is written and extracted with one leading directory
  stripped; the outcome of the extraction is logged by the callbacks of
  \<^verbatim>\<open>extractTarball(...).then\<close>, which the \<^verbatim>\<open>async\<close> body does not await.
\<close>

record linux_env =
  write_tgz_out :: "js_error + unit"
  mkdirp_out :: "js_error + unit"
  untar_out :: extraction
  unlink_tgz_out :: "js_error + unit"

definition install_linux :: "string \<Rightarrow> linux_env \<Rightarrow> unpack" where
  "install_linux dirname env =
     (let destdir = path_join dirname ''prince'';
          destfile = path_join dirname ''prince.tgz''
      in case bnd (call (WriteFile destfile) (write_tgz_out env))
                (\<lambda>_. call (Mkdirp destdir) (mkdirp_out env)) of
           (Inl error, tr) \<Rightarrow> \<lparr>ops = tr, log = [], rejected = Some error, late = None\<rparr>
         | (Inr _, tr) \<Rightarrow>
             (case untar_out env of
                Extracted \<Rightarrow>
                  (case unlink_tgz_out env of
                     Inl error \<Rightarrow>
                       \<lparr>ops = tr @ [ExtractTar destfile destdir 1, Unlink destfile], log = [],
                        rejected = None, late = Some error\<rparr>
                   | Inr _ \<Rightarrow>
                       \<lparr>ops = tr @ [ExtractTar destfile destdir 1, Unlink destfile],
                        log = [''-- OK: local PrinceXML installation now available''],
                        rejected = None, late = None\<rparr>)
              | TarError error \<Rightarrow>
                  \<lparr>ops = tr @ [ExtractTar destfile destdir 1],
                   log = [''** ERROR: failed to extract: '' @ err_text error],
                   rejected = None, late = None\<rparr>
              | StreamError error \<Rightarrow>
                  \<lparr>ops = tr @ [ExtractTar destfile destdir 1], log = [],
                   rejected = None, late = Some error\<rparr>))"

text \<open>The Windows path: the installer is written and run unattended.\<close>

record win_env =
  write_exe_out :: "js_error + unit"
  exec_error :: "js_error option"
  exec_stdout :: string
  exec_stderr :: string
  unlink_exe_out :: "js_error + unit"

definition install_win32 :: "string \<Rightarrow> win_env \<Rightarrow> unpack" where
  "install_win32 dirname env =
     (let destdir = path_join dirname ''prince'';
          destfile = path_join dirname ''prince.exe'';
          args = [''/s'', ''/a'', ''/vTARGETDIR='' @ quoted destdir @ '' /qn'']
      in case call (WriteFile destfile) (write_exe_out env) of
           (Inl error, tr) \<Rightarrow> \<lparr>ops = tr, log = [], rejected = Some error, late = None\<rparr>
         | (Inr (_ :: unit), tr) \<Rightarrow>
             (case exec_error env of
                Some error \<Rightarrow>
                  \<lparr>ops = tr @ [ExecFile destfile args],
                   log = [''** ERROR: failed to extract: '' @ err_text error]
                      @ (if exec_stdout env \<noteq> [] then [''** STDOUT: '' @ exec_stdout env] else [])
                      @ (if exec_stderr env \<noteq> [] then [''** STDERR: '' @ exec_stderr env] else []),
                   rejected = None, late = None\<rparr>
              | None \<Rightarrow>
                  (case unlink_exe_out env of
                     Inl error \<Rightarrow>
                       \<lparr>ops = tr @ [ExecFile destfile args, Unlink destfile], log = [],
                        rejected = None, late = Some error\<rparr>
                   | Inr _ \<Rightarrow>
                       \<lparr>ops = tr @ [ExecFile destfile args, Unlink destfile],
                        log = [''-- OK: local PrinceXML installation now available''],
                        rejected = None, late = None\<rparr>)))"

section \<open>Orchestrator: \<^verbatim>\<open>install\<close> and \<^verbatim>\<open>uninstall\<close>\<close>

text \<open>Everything the environment answers during one run of \<^verbatim>\<open>install\<close>.\<close>

record install_env =
  prince_info :: "js_error + string \<times> string"   \<comment> \<open>\<^verbatim>\<open>princeInfo()\<close>: command and version\<close>
  probe_error :: "js_error option"
  probe_stdout :: string
  http_proxy :: "string option"
  npm_out :: "js_error option \<times> string"
  answer :: http_answer
  on_darwin :: darwin_env
  on_linux :: linux_env
  on_win32 :: win_env

record installation =
  messages :: "string list"
  url :: "string run option"      \<comment> \<open>\<^verbatim>\<open>princeDownloadURL()\<close>, when it was called\<close>
  fetched :: "download option"    \<comment> \<open>\<^verbatim>\<open>downloadData(url)\<close>, when it was called\<close>
  unpacked :: "unpack option"     \<comment> \<open>the unpacking callback, when it was called\<close>

text \<open>The \<^verbatim>\<open>switch (process.platform)\<close> of the unpacking callback.\<close>

definition unpack_for :: "string \<Rightarrow> string \<Rightarrow> install_env \<Rightarrow> unpack" where
  "unpack_for platform dirname env =
     (if platform = ''win32'' then install_win32 dirname (on_win32 env)
      else if platform = ''darwin'' then install_darwin dirname (on_darwin env)
      else if platform = ''linux'' then install_linux dirname (on_linux env)
      else \<lparr>ops = [], log = [''-- Unknown platform '' @ quoted platform],
            rejected = None, late = None\<rparr>)"

definition install :: "string \<Rightarrow> string \<Rightarrow> string \<Rightarrow> install_env \<Rightarrow> installation" where
  "install platform arch dirname env =
     (case prince_info env of
        Inr (command, version) \<Rightarrow>
          \<lparr>messages = [''++ checking for globally installed PrinceXML'',
                       ''-- found prince(1) command: '' @ command,
                       ''-- found prince(1) version: '' @ version],
           url = None, fetched = None, unpacked = None\<rparr>
      | Inl _ \<Rightarrow>
          (let r = princeDownloadURL platform arch
                     (getLinuxOSInfo (probe_error env) (probe_stdout env));
               m1 = [''++ checking for globally installed PrinceXML'',
                     ''++ downloading PrinceXML distribution'']
           in case promise r of
                Fulfilled u \<Rightarrow>
                  (let d = downloadData u (http_proxy env) (npm_out env) (answer env)
                   in case payload d of
                        Fulfilled data \<Rightarrow>
                          (let x = unpack_for platform dirname env
                           in \<lparr>messages = m1 @ dl_log d
                                 @ [''++ locally unpacking PrinceXML distribution''] @ log x,
                               url = Some r, fetched = Some d, unpacked = Some x\<rparr>)
                      | Rejected error \<Rightarrow>
                          \<lparr>messages = m1 @ dl_log d
                             @ [''** ERROR: failed to download: '' @ err_text error],
                           url = Some r, fetched = Some d, unpacked = None\<rparr>
                      | Pending \<Rightarrow>
                          \<lparr>messages = m1 @ dl_log d,
                           url = Some r, fetched = Some d, unpacked = None\<rparr>)
              | Rejected error \<Rightarrow>
                  \<lparr>messages = m1, url = Some r, fetched = None, unpacked = None\<rparr>
              | Pending \<Rightarrow>
                  \<lparr>messages = m1, url = Some r, fetched = None, unpacked = None\<rparr>))"

text \<open>
  The file system, for \<^verbatim>\<open>uninstall\<close>: the set of the paths that exist. \<^verbatim>\<open>rimraf\<close>
  removes a path and everything below it, or fails and leaves what it leaves.
\<close>

type_synonym fs = "string set"

datatype rimraf_out = Removed | RmFailed js_error fs

definition below :: "string \<Rightarrow> string \<Rightarrow> bool" where
  "below d p = (p = d \<or> prefix (d @ ''/'') p)"

definition existsSync :: "string \<Rightarrow> fs \<Rightarrow> bool" where
  "existsSync p files = (p \<in> files)"

definition rimraf :: "string \<Rightarrow> fs \<Rightarrow> fs" where
  "rimraf d files = Set.filter (\<lambda>p. \<not> below d p) files"

record uninstalled =
  fs_after :: fs
  un_log :: "string list"
  un_failed :: "js_error option"   \<comment> \<open>an exception or rejection of \<^verbatim>\<open>uninstall\<close>\<close>

definition uninstall :: "string \<Rightarrow> rimraf_out \<Rightarrow> fs \<Rightarrow> uninstalled" where
  "uninstall dirname out files =
     (let destdir = path_join dirname ''prince''
      in if existsSync destdir files then
           (case out of
              Removed \<Rightarrow>
                \<lparr>fs_after = rimraf destdir files,
                 un_log = [''++ deleting locally unpacked PrinceXML distribution'',
                           ''-- OK: done''],
                 un_failed = None\<rparr>
            | RmFailed error left \<Rightarrow>
                \<lparr>fs_after = left,
                 un_log = [''++ deleting locally unpacked PrinceXML distribution'',
                           ''** ERROR: '' @ err_text error],
                 un_failed = None\<rparr>)
         else \<lparr>fs_after = files, un_log = [], un_failed = None\<rparr>)"

section \<open>Properties of the matcher\<close>

lemma in_Seq:
  "st' \<in> set (rx_run (Seq a b) st) \<longleftrightarrow> (\<exists>m \<in> set (rx_run a st). st' \<in> set (rx_run b m))"
  by (cases st) simp

lemma in_Star:
  "st' \<in> set (rx_run (Star r) st) \<longleftrightarrow>
     st' = st \<or> (\<exists>m \<in> set (rx_run r st). length (snd m) < length (snd st)
                    \<and> st' \<in> set (rx_run (Star r) m))"
proof (cases st)
  case (Pair g s)
  show ?thesis
    unfolding Pair by (subst rx_run.simps(4)) auto
qed

lemma in_Grp:
  "st' \<in> set (rx_run (Grp n r) st) \<longleftrightarrow>
     (\<exists>m \<in> set (rx_run r st).
        st' = ((n, take (length (snd st) - length (snd m)) (snd st)) # fst m, snd m))"
  by (cases st) auto

text \<open>What is left unread is a suffix of the input; bindings of groups are never lost.\<close>

lemma rx_run_suffix: "st' \<in> set (rx_run r st) \<Longrightarrow> suffix (snd st') (snd st)"
proof (induction r st arbitrary: st' rule: rx_run.induct)
  case (1 c g s)
  then show ?case by (cases s) (simp_all add: suffix_Cons split: if_splits)
next
  case (2 c lo hi g s)
  then show ?case by (auto simp: suffix_drop)
next
  case (3 a b g s)
  from "3.prems" obtain m where m: "m \<in> set (rx_run a (g, s))" and st': "st' \<in> set (rx_run b m)"
    unfolding in_Seq by blast
  from "3.IH"(1) [OF m] "3.IH"(2) [OF m st']
  show ?case by (rule suffix_order.trans [rotated])
next
  case (4 r g s)
  from iffD1 [OF in_Star "4.prems"] consider "st' = (g, s)"
    | m where "m \<in> set (rx_run r (g, s))" "length (snd m) < length s" "st' \<in> set (rx_run (Star r) m)"
    by auto
  then show ?case
  proof cases
    case 1
    then show ?thesis by simp
  next
    case 2
    from 2(1,2) have m': "m \<in> set (filter (\<lambda>st. length (snd st) < length s) (rx_run r (g, s)))"
      by simp
    from "4.IH"(1) [OF 2(1)] "4.IH"(2) [OF m' 2(3)]
    show ?thesis by (rule suffix_order.trans [rotated])
  qed
next
  case (5 n r g s)
  from "5.prems" obtain m where m: "m \<in> set (rx_run r (g, s))" and "snd st' = snd m"
    unfolding in_Grp by auto
  with "5.IH" [OF m] show ?case by simp
next
  case (6 g s)
  then show ?case by (simp split: if_splits)
qed

lemma rx_run_keys:
  "st' \<in> set (rx_run r st) \<Longrightarrow> fst ` set (fst st) \<subseteq> fst ` set (fst st')"
proof (induction r st arbitrary: st' rule: rx_run.induct)
  case (1 c g s)
  then show ?case by (cases s) (auto split: if_splits)
next
  case (2 c lo hi g s)
  then show ?case by auto
next
  case (3 a b g s)
  from "3.prems" obtain m where m: "m \<in> set (rx_run a (g, s))" and st': "st' \<in> set (rx_run b m)"
    unfolding in_Seq by blast
  from "3.IH"(1) [OF m] "3.IH"(2) [OF m st']
  show ?case by (rule subset_trans)
next
  case (4 r g s)
  from iffD1 [OF in_Star "4.prems"] consider "st' = (g, s)"
    | m where "m \<in> set (rx_run r (g, s))" "length (snd m) < length s" "st' \<in> set (rx_run (Star r) m)"
    by auto
  then show ?case
  proof cases
    case 1
    then show ?thesis by simp
  next
    case 2
    from 2(1,2) have m': "m \<in> set (filter (\<lambda>st. length (snd st) < length s) (rx_run r (g, s)))"
      by simp
    from "4.IH"(1) [OF 2(1)] "4.IH"(2) [OF m' 2(3)]
    show ?thesis by (rule subset_trans)
  qed
next
  case (5 n r g s)
  from "5.prems" obtain m where m: "m \<in> set (rx_run r (g, s))"
    and "fst st' = (n, take (length s - length (snd m)) s) # fst m"
    unfolding in_Grp by auto
  with "5.IH" [OF m] show ?case by auto
next
  case (6 g s)
  then show ?case by (simp split: if_splits)
qed

lemma rx_run_Grp_key: "st' \<in> set (rx_run (Grp n r) st) \<Longrightarrow> n \<in> fst ` set (fst st')"
  unfolding in_Grp by force

lemma group_bound: "n \<in> fst ` set g \<Longrightarrow> group g n \<noteq> None"
  by (simp add: group_def map_of_eq_None_iff)

lemma rx_try_run:
  "rx_try r s is = Some (i, st) \<Longrightarrow> st \<in> set (rx_run r ([], drop i s))"
  by (induction "is") (auto simp: rx_at_start_def split: option.splits list.splits)

text \<open>Every match of the probe's pattern binds its three groups.\<close>

lemma osRegex_groups:
  assumes "rx_search osRegex s = Some (i, g, t)"
  shows "group g 1 \<noteq> None \<and> group g 2 \<noteq> None \<and> group g 3 \<noteq> None"
proof -
  let ?r3 = "Grp 3 (Seq (Rep Digit 1 (Some 5)) (Seq (Sym Dot) (Seq (Rep Digit 1 (Some 5))
               (Seq (Rep Dot 0 (Some 1)) (Rep Digit 1 (Some 5))))))"
  let ?r2 = "Grp 2 (Rep Alpha 1 (Some 10))"
  let ?r1 = "Grp 1 (Seq (Sym AlphaNum) (Rep Dot 0 None))"
  from assms have "(g, t) \<in> set (rx_run osRegex ([], drop i s))"
    unfolding rx_search_def by (rule rx_try_run)
  then obtain m1 m2 m3 where m1: "m1 \<in> set (rx_run ?r1 ([], drop i s))"
    and m2: "m2 \<in> set (rx_run (Sym (Lit CHR ''-'')) m1)"
    and m3: "m3 \<in> set (rx_run ?r2 m2)"
    and c: "(g, t) \<in> set (rx_run ?r3 m3)"
    unfolding osRegex_def in_Seq by blast
  have k1: "1 \<in> fst ` set (fst m1)" using m1 by (rule rx_run_Grp_key)
  have k2: "2 \<in> fst ` set (fst m3)" using m3 by (rule rx_run_Grp_key)
  have k3: "3 \<in> fst ` set g" using rx_run_Grp_key [OF c] by simp
  have "1 \<in> fst ` set (fst m3)"
    using k1 rx_run_keys [OF m2] rx_run_keys [OF m3] by blast
  with k2 have "1 \<in> fst ` set g" "2 \<in> fst ` set g"
    using rx_run_keys [OF c] by auto
  with k3 show ?thesis by (simp add: group_bound)
qed

lemma rx_test_Sym:
  "rx_test (Seq (Sym c) r) s = (case s of [] \<Rightarrow> False | x # t \<Rightarrow> cls_ok c x \<and> rx_test r t)"
  by (cases s) (simp_all add: rx_test_def rx_at_start_def split: list.splits)

lemma rx_test_iff: "rx_test r s \<longleftrightarrow> (\<exists>st. st \<in> set (rx_run r ([], s)))"
  by (cases "rx_run r ([], s)") (auto simp: rx_test_def rx_at_start_def)

lemma counts_set:
  "set (counts c lo hi s) =
     {k. lo \<le> k \<and> k \<le> (case hi of None \<Rightarrow> length (takeWhile (cls_ok c) s)
                                 | Some h \<Rightarrow> min h (length (takeWhile (cls_ok c) s)))}"
  by (auto simp: counts_def Let_def split: option.splits)

lemma in_dot_digits:
  "st' \<in> set (rx_run dot_digits (g, s)) \<longleftrightarrow>
     (\<exists>t k. s = CHR ''.'' # t \<and> 1 \<le> k \<and> k \<le> length (takeWhile is_digit t)
            \<and> st' = (g, drop k t))"
proof (cases s)
  case Nil
  then show ?thesis by (simp add: dot_digits_def)
next
  case (Cons x t)
  have "cls_ok Digit = is_digit" by (rule ext) simp
  then show ?thesis
    unfolding Cons dot_digits_def by (auto simp: counts_set)
qed

lemma takeWhile_all: "list_all P xs \<Longrightarrow> takeWhile P (xs @ ys) = xs @ takeWhile P ys"
  by (induction xs) auto

lemma take_within_takeWhile: "k \<le> length (takeWhile P t) \<Longrightarrow> list_all P (take k t)"
  by (induction t arbitrary: k) (auto simp: take_Cons' split: if_splits)

lemma star_dotted_complete:
  "list_all (\<lambda>w. w \<noteq> [] \<and> list_all is_digit w) gs \<Longrightarrow>
   (g, []) \<in> set (rx_run (Star dot_digits) (g, concat (map ((#) CHR ''.'') gs)))"
proof (induction gs)
  case Nil
  show ?case by (subst in_Star) simp
next
  case (Cons w gs)
  let ?rest = "concat (map ((#) CHR ''.'') gs)"
  from Cons.prems have w: "w \<noteq> []" "list_all is_digit w"
    and gs: "list_all (\<lambda>w. w \<noteq> [] \<and> list_all is_digit w) gs"
    by simp_all
  have "length w \<le> length (takeWhile is_digit (w @ ?rest))"
    by (simp add: takeWhile_all [OF w(2)])
  with w(1) have step: "(g, ?rest) \<in> set (rx_run dot_digits (g, CHR ''.'' # w @ ?rest))"
    unfolding in_dot_digits by (intro exI [of _ "w @ ?rest"] exI [of _ "length w"]) (cases w, auto)
  show ?case
    by (subst in_Star) (use step Cons.IH [OF gs] in force)
qed

lemma star_dotted_sound:
  "(g', []) \<in> set (rx_run (Star dot_digits) (g, s)) \<Longrightarrow>
   \<exists>gs. list_all (\<lambda>w. w \<noteq> [] \<and> list_all is_digit w) gs \<and> s = concat (map ((#) CHR ''.'') gs)"
proof (induction "length s" arbitrary: s rule: less_induct)
  case less
  from iffD1 [OF in_Star less.prems] consider "s = []"
    | m where "m \<in> set (rx_run dot_digits (g, s))" "length (snd m) < length s"
        "(g', []) \<in> set (rx_run (Star dot_digits) m)"
    by auto
  then show ?case
  proof cases
    case 1
    then show ?thesis by (intro exI [of _ "[]"]) simp
  next
    case 2
    from 2(1) obtain t k where s: "s = CHR ''.'' # t" and k: "1 \<le> k" "k \<le> length (takeWhile is_digit t)"
      and m: "m = (g, drop k t)"
      unfolding in_dot_digits by blast
    from less.hyps [of "drop k t"] 2(2,3) m
    obtain gs where gs: "list_all (\<lambda>w. w \<noteq> [] \<and> list_all is_digit w) gs"
      and rest: "drop k t = concat (map ((#) CHR ''.'') gs)"
      by auto
    have dig: "list_all is_digit (take k t)"
      using k(2) by (rule take_within_takeWhile)
    have ne: "take k t \<noteq> []"
      using k by (cases t) auto
    have "s = concat (map ((#) CHR ''.'') (take k t # gs))"
      using s rest by (simp flip: rest)
    with gs dig ne show ?thesis
      by (intro exI [of _ "take k t # gs"]) simp
  qed
qed

lemma dotted_tail_iff:
  "rx_test dotted_tail s \<longleftrightarrow>
     (\<exists>gs. list_all (\<lambda>w. w \<noteq> [] \<and> list_all is_digit w) gs \<and> s = concat (map ((#) CHR ''.'') gs))"
proof
  assume "rx_test dotted_tail s"
  then obtain st m where m: "m \<in> set (rx_run (Star dot_digits) ([], s))"
    and st: "st \<in> set (rx_run Eol m)"
    unfolding rx_test_iff dotted_tail_def in_Seq by blast
  from st have "m = (fst m, [])"
    by (cases m) (simp split: if_splits)
  with m have "(fst m, []) \<in> set (rx_run (Star dot_digits) ([], s))"
    by metis
  then show "\<exists>gs. list_all (\<lambda>w. w \<noteq> [] \<and> list_all is_digit w) gs \<and> s = concat (map ((#) CHR ''.'') gs)"
    by (rule star_dotted_sound)
next
  assume "\<exists>gs. list_all (\<lambda>w. w \<noteq> [] \<and> list_all is_digit w) gs \<and> s = concat (map ((#) CHR ''.'') gs)"
  then obtain gs where gs: "list_all (\<lambda>w. w \<noteq> [] \<and> list_all is_digit w) gs"
    and s: "s = concat (map ((#) CHR ''.'') gs)"
    by blast
  have "([], []) \<in> set (rx_run (Star dot_digits) ([], s))"
    unfolding s using gs by (rule star_dotted_complete)
  moreover have "([], []) \<in> set (rx_run Eol ([], []))"
    by simp
  ultimately show "rx_test dotted_tail s"
    unfolding rx_test_iff dotted_tail_def in_Seq by blast
qed

text \<open>
  What a version pattern accepts: its first digit, one digit of its set, and then any number
  of groups made of a dot and one or more digits.
\<close>

lemma version_rx_iff:
  "rx_test (version_rx d ds) v \<longleftrightarrow>
     (\<exists>x gs. x \<in> set ds \<and> list_all (\<lambda>w. w \<noteq> [] \<and> list_all is_digit w) gs
             \<and> v = d # x # concat (map ((#) CHR ''.'') gs))"
  unfolding version_rx_def
  by (cases v; cases "tl v") (auto simp: rx_test_Sym dotted_tail_iff)


section \<open>Properties of the resolver\<close>

lemma dec_14: "dec 14 = ''14''"
  by (simp add: dec.simps)

lemma download_url_14:
  "download_url a = ''https://www.princexml.com/download/prince-14-'' @ a"
  by (simp add: download_url_def PRINCE_VERSION_def dec_14)

lemma await_resolved: "await (resolved v) k = k v"
  by (simp add: await_def resolved_def)

text \<open>While the promise of the resolver is pending, \<^verbatim>\<open>install\<close> downloads and unpacks nothing.\<close>

lemma install_no_url:
  "prince_info env = Inl e \<Longrightarrow>
   promise (princeDownloadURL platform arch (getLinuxOSInfo (probe_error env) (probe_stdout env)))
     = Pending \<Longrightarrow>
   install platform arch d env =
     \<lparr>messages = [''++ checking for globally installed PrinceXML'',
                  ''++ downloading PrinceXML distribution''],
      url = Some (princeDownloadURL platform arch
                     (getLinuxOSInfo (probe_error env) (probe_stdout env))),
      fetched = None, unpacked = None\<rparr>"
  by (simp add: install_def Let_def)

lemma version_rx_head:
  "rx_test (version_rx d ds) v \<Longrightarrow> \<exists>x t. v = d # x # t \<and> x \<in> set ds"
  by (auto simp: version_rx_def rx_test_Sym split: list.splits)

lemma probe_ubuntu:
  "getLinuxOSInfo None (''amd64-ubuntu14.04'' @ [LF])
     = resolved \<lparr>osCPUArch = ''amd64'', osName = ''ubuntu'', osVersion = ''14.04''\<rparr>"
  "getLinuxOSInfo None (''amd64-ubuntu16.04'' @ [LF])
     = resolved \<lparr>osCPUArch = ''amd64'', osName = ''ubuntu'', osVersion = ''16.04''\<rparr>"
  "getLinuxOSInfo None (''amd64-ubuntu18.04'' @ [LF])
     = resolved \<lparr>osCPUArch = ''amd64'', osName = ''ubuntu'', osVersion = ''18.04''\<rparr>"
  "getLinuxOSInfo None (''amd64-ubuntu20.04'' @ [LF])
     = resolved \<lparr>osCPUArch = ''amd64'', osName = ''ubuntu'', osVersion = ''20.04''\<rparr>"
  by code_simp+

lemma version_tests:
  "rx_test (version_rx CHR ''1'' ''45'') ''14.04''"
  "rx_test (version_rx CHR ''1'' ''67'') ''16.04''"
  "rx_test (version_rx CHR ''1'' ''89'') ''18.04''"
  "rx_test (version_rx CHR ''2'' ''01'') ''20.04''"
  by code_simp+

text \<open>
  C7. On Linux, for the distribution \<open>ubuntu\<close> on \<open>amd64\<close>, a version that passes the test
  for 14.x/15.x, 16.x/17.x, 18.x/19.x or 20.x/21.x resolves to the tarball of Ubuntu
  14.04, 16.04, 18.04 or 20.04 for product version 14; the four URLs differ. In particular
  every version made of \<open>20\<close> or \<open>21\<close> and any number of groups of a dot and digits
  resolves to the tarball of Ubuntu 20.04.
\<close>

theorem ubuntu_amd64_ranges:
  "(rx_test (version_rx CHR ''1'' ''45'') v \<longrightarrow>
      princeDownloadURL ''linux'' arch
        (resolved \<lparr>osCPUArch = ''amd64'', osName = ''ubuntu'', osVersion = v\<rparr>)
        = resolved ''https://www.princexml.com/download/prince-14-ubuntu14.04-amd64.tar.gz'')
 \<and> (rx_test (version_rx CHR ''1'' ''67'') v \<longrightarrow>
      princeDownloadURL ''linux'' arch
        (resolved \<lparr>osCPUArch = ''amd64'', osName = ''ubuntu'', osVersion = v\<rparr>)
        = resolved ''https://www.princexml.com/download/prince-14-ubuntu16.04-amd64.tar.gz'')
 \<and> (rx_test (version_rx CHR ''1'' ''89'') v \<longrightarrow>
      princeDownloadURL ''linux'' arch
        (resolved \<lparr>osCPUArch = ''amd64'', osName = ''ubuntu'', osVersion = v\<rparr>)
        = resolved ''https://www.princexml.com/download/prince-14-ubuntu18.04-amd64.tar.gz'')
 \<and> (rx_test (version_rx CHR ''2'' ''01'') v \<longrightarrow>
      princeDownloadURL ''linux'' arch
        (resolved \<lparr>osCPUArch = ''amd64'', osName = ''ubuntu'', osVersion = v\<rparr>)
        = resolved ''https://www.princexml.com/download/prince-14-ubuntu20.04-amd64.tar.gz'')
 \<and> (x \<in> set ''01'' \<and> list_all (\<lambda>w. w \<noteq> [] \<and> list_all is_digit w) gs \<longrightarrow>
      princeDownloadURL ''linux'' arch
        (resolved \<lparr>osCPUArch = ''amd64'', osName = ''ubuntu'',
                   osVersion = CHR ''2'' # x # concat (map ((#) CHR ''.'') gs)\<rparr>)
        = resolved ''https://www.princexml.com/download/prince-14-ubuntu20.04-amd64.tar.gz'')
 \<and> distinct (map download_url [''ubuntu14.04-amd64.tar.gz'', ''ubuntu16.04-amd64.tar.gz'',
                                ''ubuntu18.04-amd64.tar.gz'', ''ubuntu20.04-amd64.tar.gz''])"
proof -
  let ?i = "\<lambda>w. \<lparr>osCPUArch = ''amd64'', osName = ''ubuntu'', osVersion = w\<rparr>"
  have run: "princeDownloadURL ''linux'' arch (resolved (?i w)) = ubuntu_url (?i w)" for w
    by (simp add: princeDownloadURL_def await_resolved)
  have a: "ubuntu_url (?i w) = resolved (download_url ''ubuntu14.04-amd64.tar.gz'')"
    if "rx_test (version_rx CHR ''1'' ''45'') w" for w
    using that by (simp add: ubuntu_url_def)
  have b: "ubuntu_url (?i w) = resolved (download_url ''ubuntu16.04-amd64.tar.gz'')"
    if "rx_test (version_rx CHR ''1'' ''67'') w" for w
    using that version_rx_head [of "CHR ''1''" "''45''" w] version_rx_head [of "CHR ''1''" "''67''" w]
    by (auto simp: ubuntu_url_def)
  have c: "ubuntu_url (?i w) = resolved (download_url ''ubuntu18.04-amd64.tar.gz'')"
    if "rx_test (version_rx CHR ''1'' ''89'') w" for w
    using that version_rx_head [of "CHR ''1''" "''45''" w] version_rx_head [of "CHR ''1''" "''67''" w]
      version_rx_head [of "CHR ''1''" "''89''" w]
    by (auto simp: ubuntu_url_def)
  have d: "ubuntu_url (?i w) = resolved (download_url ''ubuntu20.04-amd64.tar.gz'')"
    if "rx_test (version_rx CHR ''2'' ''01'') w" for w
    using that version_rx_head [of "CHR ''1''" "''45''" w] version_rx_head [of "CHR ''1''" "''67''" w]
      version_rx_head [of "CHR ''1''" "''89''" w] version_rx_head [of "CHR ''2''" "''01''" w]
    by (auto simp: ubuntu_url_def)
  have e: "rx_test (version_rx CHR ''2'' ''01'') (CHR ''2'' # x # concat (map ((#) CHR ''.'') gs))"
    if "x \<in> set ''01''" and "list_all (\<lambda>w. w \<noteq> [] \<and> list_all is_digit w) gs"
    using that unfolding version_rx_iff by blast
  show ?thesis
    using a b c d d [OF e] by (simp add: run download_url_14)
qed

theorem ubuntu_amd64_ranges_witness:
  "rx_test (version_rx CHR ''1'' ''45'') ''14.04''
   \<and> princeDownloadURL ''linux'' ''x64'' (getLinuxOSInfo None (''amd64-ubuntu14.04'' @ [LF]))
       = resolved ''https://www.princexml.com/download/prince-14-ubuntu14.04-amd64.tar.gz''
   \<and> rx_test (version_rx CHR ''1'' ''67'') ''16.04''
   \<and> princeDownloadURL ''linux'' ''x64'' (getLinuxOSInfo None (''amd64-ubuntu16.04'' @ [LF]))
       = resolved ''https://www.princexml.com/download/prince-14-ubuntu16.04-amd64.tar.gz''
   \<and> rx_test (version_rx CHR ''1'' ''89'') ''18.04''
   \<and> princeDownloadURL ''linux'' ''x64'' (getLinuxOSInfo None (''amd64-ubuntu18.04'' @ [LF]))
       = resolved ''https://www.princexml.com/download/prince-14-ubuntu18.04-amd64.tar.gz''
   \<and> rx_test (version_rx CHR ''2'' ''01'') ''20.04''
   \<and> princeDownloadURL ''linux'' ''x64'' (getLinuxOSInfo None (''amd64-ubuntu20.04'' @ [LF]))
       = resolved ''https://www.princexml.com/download/prince-14-ubuntu20.04-amd64.tar.gz''
   \<and> CHR ''1'' \<in> set ''01'' \<and> list_all (\<lambda>w. w \<noteq> [] \<and> list_all is_digit w) [''10'', ''1'']
   \<and> princeDownloadURL ''linux'' ''x64''
        (resolved \<lparr>osCPUArch = ''amd64'', osName = ''ubuntu'', osVersion = ''21.10.1''\<rparr>)
       = resolved ''https://www.princexml.com/download/prince-14-ubuntu20.04-amd64.tar.gz''"
proof -
  have digits: "CHR ''1'' \<in> set ''01'' \<and> list_all (\<lambda>w. w \<noteq> [] \<and> list_all is_digit w) [''10'', ''1'']"
    by (simp add: is_digit_def code_def)
  have v: "CHR ''2'' # CHR ''1'' # concat (map ((#) CHR ''.'') [''10'', ''1'']) = ''21.10.1''"
    by simp
  show ?thesis
    using ubuntu_amd64_ranges [of "''14.04''" "''x64''" "CHR ''1''" "[''10'', ''1'']"]
      ubuntu_amd64_ranges [of "''16.04''" "''x64''" "CHR ''1''" "[''10'', ''1'']"]
      ubuntu_amd64_ranges [of "''18.04''" "''x64''" "CHR ''1''" "[''10'', ''1'']"]
      ubuntu_amd64_ranges [of "''20.04''" "''x64''" "CHR ''1''" "[''10'', ''1'']"]
      version_tests digits
    by (simp only: probe_ubuntu v simp_thms)
qed

text \<open>
  C3. On a Windows host \<^verbatim>\<open>process.platform\<close> is \<^verbatim>\<open>"win32"\<close>; the resolver's case label
  is \<^verbatim>\<open>"wind32"\<close>, so for the architectures \<open>x64\<close> and \<open>ia32\<close> the default case throws
  \<open>Unsupported platform\<close> and the promise stays pending. Under the label as written the
  \<open>x64\<close> branch does resolve to the 64-bit installer. On the host, \<^verbatim>\<open>install\<close> then
  downloads nothing and unpacks nothing.
\<close>

theorem windows_host_unsupported:
  "princeDownloadURL ''win32'' ''x64'' probe
     = thrown (Error (''Unsupported platform: '' @ [DQ] @ ''win32'' @ [DQ]))
   \<and> princeDownloadURL ''win32'' ''ia32'' probe
     = thrown (Error (''Unsupported platform: '' @ [DQ] @ ''win32'' @ [DQ]))
   \<and> princeDownloadURL ''wind32'' ''x64'' probe
     = resolved ''https://www.princexml.com/download/prince-14-win64-setup.exe''
   \<and> fetched (install ''win32'' ''x64'' d (env\<lparr>prince_info := Inl e\<rparr>)) = None
   \<and> unpacked (install ''win32'' ''x64'' d (env\<lparr>prince_info := Inl e\<rparr>)) = None"
proof -
  have r: "princeDownloadURL ''win32'' a probe
             = thrown (Error (''Unsupported platform: '' @ [DQ] @ ''win32'' @ [DQ]))" for a probe
    by (simp add: princeDownloadURL_def quoted_def)
  have "install ''win32'' ''x64'' d (env\<lparr>prince_info := Inl e\<rparr>) =
     \<lparr>messages = [''++ checking for globally installed PrinceXML'',
                  ''++ downloading PrinceXML distribution''],
      url = Some (princeDownloadURL ''win32'' ''x64''
                     (getLinuxOSInfo (probe_error (env\<lparr>prince_info := Inl e\<rparr>))
                        (probe_stdout (env\<lparr>prince_info := Inl e\<rparr>)))),
      fetched = None, unpacked = None\<rparr>"
    by (rule install_no_url [of _ e]) (simp_all add: r thrown_def)
  then show ?thesis
    by (simp add: r) (simp add: princeDownloadURL_def download_url_14)
qed

text \<open>
  C2. On Linux with the distribution \<open>fedora\<close>, which the table does not list, the
  resolver raises nothing and its promise stays pending: for the triple (amd64, fedora, 34)
  as such, and for a probe output that yields the name \<open>fedora\<close>. For the probe output
  \<open>amd64-fedora34\<close> the probe's pattern does not match and a \<open>TypeError\<close> escapes.
  \<^verbatim>\<open>install\<close> logs its two first lines and then neither downloads nor unpacks.
\<close>

theorem linux_fedora_pending:
  "princeDownloadURL ''linux'' ''x64''
      (resolved \<lparr>osCPUArch = ''amd64'', osName = ''fedora'', osVersion = ''34''\<rparr>) = idle
   \<and> princeDownloadURL ''linux'' ''x64'' (getLinuxOSInfo None (''amd64-fedora34'' @ [LF]))
       = thrown TypeError
   \<and> princeDownloadURL ''linux'' ''x64'' (getLinuxOSInfo None (''amd64-fedora34.0.1'' @ [LF]))
       = idle
   \<and> install ''linux'' ''x64'' d
        (env\<lparr>prince_info := Inl e, probe_error := None,
              probe_stdout := ''amd64-fedora34.0.1'' @ [LF]\<rparr>)
       = \<lparr>messages = [''++ checking for globally installed PrinceXML'',
                      ''++ downloading PrinceXML distribution''],
          url = Some idle, fetched = None, unpacked = None\<rparr>"
proof -
  have a: "getLinuxOSInfo None (''amd64-fedora34'' @ [LF])
             = \<lparr>promise = Pending, escaped = Some TypeError\<rparr>"
    by code_simp
  have b: "getLinuxOSInfo None (''amd64-fedora34.0.1'' @ [LF])
             = resolved \<lparr>osCPUArch = ''amd64'', osName = ''fedora'', osVersion = ''34.0.1''\<rparr>"
    by code_simp
  have c: "princeDownloadURL ''linux'' ''x64'' (getLinuxOSInfo None (''amd64-fedora34.0.1'' @ [LF]))
       = idle"
    unfolding b by (simp add: princeDownloadURL_def await_def thrown_def resolved_def)
  have i: "install ''linux'' ''x64'' d
        (env\<lparr>prince_info := Inl e, probe_error := None,
              probe_stdout := ''amd64-fedora34.0.1'' @ [LF]\<rparr>)
       = \<lparr>messages = [''++ checking for globally installed PrinceXML'',
                      ''++ downloading PrinceXML distribution''],
          url = Some (princeDownloadURL ''linux'' ''x64''
                 (getLinuxOSInfo None (''amd64-fedora34.0.1'' @ [LF]))),
          fetched = None, unpacked = None\<rparr>"
    using install_no_url [of "env\<lparr>prince_info := Inl e, probe_error := None,
              probe_stdout := ''amd64-fedora34.0.1'' @ [LF]\<rparr>" e "''linux''" "''x64''" d] c
    by (simp add: idle_def)
  show ?thesis
    unfolding i c unfolding a
    by (simp add: princeDownloadURL_def await_def thrown_def resolved_def)
qed

text \<open>
  C4. On Linux with the distribution \<open>debian\<close> or \<open>centos\<close> on \<open>amd64\<close>, whatever the
  version, the resolver raises nothing and its promise stays pending; the \<open>debian\<close> case
  of the outer switch, were the platform ever \<open>debian\<close>, throws a \<open>ReferenceError\<close>.
\<close>

theorem linux_debian_centos_pending:
  "princeDownloadURL ''linux'' arch
      (resolved \<lparr>osCPUArch = ''amd64'', osName = ''debian'', osVersion = v\<rparr>) = idle
   \<and> princeDownloadURL ''linux'' arch
      (resolved \<lparr>osCPUArch = ''amd64'', osName = ''centos'', osVersion = v\<rparr>) = idle
   \<and> princeDownloadURL ''linux'' ''x64'' (getLinuxOSInfo None (''amd64-debian10.13'' @ [LF]))
       = idle
   \<and> princeDownloadURL ''debian'' arch probe = thrown (ReferenceError ''osCPUArch'')"
proof -
  have b: "getLinuxOSInfo None (''amd64-debian10.13'' @ [LF])
             = resolved \<lparr>osCPUArch = ''amd64'', osName = ''debian'', osVersion = ''10.13''\<rparr>"
    by code_simp
  show ?thesis
    unfolding b by (simp add: princeDownloadURL_def await_resolved)
qed

lemma macos_probe_outputs:
  "rx_search osRegex (toLowerCase (''amd64-macosx11.2'' @ [LF])) = None"
  "rx_search osRegex (toLowerCase (''amd64-macosx10.15.7'' @ [LF])) \<noteq> None"
  by code_simp+

text \<open>
  C10. On macOS the resolver awaits the OS probe first. When the probe's pattern does not
  match the lower-cased output, a \<open>TypeError\<close> escapes and the promise stays pending; the
  promise is fulfilled only if the pattern matches and the probe reported no error, and then
  with the one macOS URL, whatever the probe found.
\<close>

theorem darwin_needs_probe_match:
  "(rx_search osRegex (toLowerCase out) = None \<longrightarrow>
      escaped (princeDownloadURL ''darwin'' arch (getLinuxOSInfo err out)) = Some TypeError
      \<and> promise (princeDownloadURL ''darwin'' arch (getLinuxOSInfo err out)) = Pending)
   \<and> (promise (princeDownloadURL ''darwin'' arch (getLinuxOSInfo err out)) = Fulfilled u \<longrightarrow>
        rx_search osRegex (toLowerCase out) \<noteq> None \<and> err = None
        \<and> u = ''https://www.princexml.com/download/prince-14-macos.zip'')
   \<and> (rx_search osRegex (toLowerCase out) \<noteq> None \<and> err = None \<longrightarrow>
        princeDownloadURL ''darwin'' arch (getLinuxOSInfo err out)
          = resolved ''https://www.princexml.com/download/prince-14-macos.zip'')"
  by (cases err)
     (auto simp: princeDownloadURL_def getLinuxOSInfo_def await_def thrown_def resolved_def
        idle_def download_url_14 Let_def split: option.splits)

theorem darwin_needs_probe_match_witness:
  "rx_search osRegex (toLowerCase (''amd64-macosx11.2'' @ [LF])) = None
   \<and> escaped (princeDownloadURL ''darwin'' ''x64'' (getLinuxOSInfo None (''amd64-macosx11.2'' @ [LF])))
       = Some TypeError
   \<and> promise (princeDownloadURL ''darwin'' ''x64'' (getLinuxOSInfo None (''amd64-macosx11.2'' @ [LF])))
       = Pending
   \<and> rx_search osRegex (toLowerCase (''amd64-macosx10.15.7'' @ [LF])) \<noteq> None
   \<and> princeDownloadURL ''darwin'' ''x64'' (getLinuxOSInfo None (''amd64-macosx10.15.7'' @ [LF]))
       = resolved ''https://www.princexml.com/download/prince-14-macos.zip''"
  using darwin_needs_probe_match [of "''amd64-macosx11.2'' @ [LF]" "''x64''" None]
    darwin_needs_probe_match [of "''amd64-macosx10.15.7'' @ [LF]" "''x64''" None]
    macos_probe_outputs
  by simp

section \<open>Properties of the fetcher\<close>

lemma rx_test_Opt:
  "rx_test (Seq (Rep (Lit c) 0 (Some (Suc 0))) r) s
     = ((\<exists>t. s = c # t \<and> rx_test r t) \<or> rx_test r s)"
proof (cases s)
  case Nil
  then show ?thesis
    by (simp add: rx_test_def rx_at_start_def counts_def split: list.splits)
next
  case (Cons x t)
  show ?thesis
  proof (cases "x = c")
    case True
    have "counts (Lit c) 0 (Some (Suc 0)) (c # t) = [1, 0]"
      by (simp add: counts_def min_def)
    with True Cons show ?thesis
      by (auto simp: rx_test_def rx_at_start_def split: list.splits)
  next
    case False
    with Cons show ?thesis
      by (auto simp: rx_test_def rx_at_start_def counts_def split: list.splits)
  qed
qed

lemma rx_test_Dots:
  "rx_test (Rep Dot (Suc 0) None) s
     = (case s of [] \<Rightarrow> False | x # t \<Rightarrow> x \<noteq> LF \<and> x \<noteq> CR)"
  by (cases s) (auto simp: rx_test_def rx_at_start_def counts_def split: list.splits)

text \<open>What \<^verbatim>\<open>/^https?:\/\/.+/\<close> accepts.\<close>

lemma proxy_rx_iff:
  "rx_test proxy_rx s =
     (\<exists>x t. x \<noteq> LF \<and> x \<noteq> CR \<and> (s = ''http://'' @ x # t \<or> s = ''https://'' @ x # t))"
  unfolding proxy_rx_def
  by (auto simp: rx_test_Sym rx_test_Opt rx_test_Dots split: list.splits)

lemma rx_try_Suc:
  "rx_try r (x # s) (map Suc js) = map_option (\<lambda>(i, st). (Suc i, st)) (rx_try r s js)"
  by (induction js) (auto split: option.splits)

lemma rx_search_Nil: "rx_search r [] = map_option (Pair 0) (rx_at_start r [])"
  by (simp add: rx_search_def split: option.splits)

lemma rx_search_Cons:
  "rx_search r (x # s) =
     (case rx_at_start r (x # s) of
        Some st \<Rightarrow> Some (0, st)
      | None \<Rightarrow> map_option (\<lambda>(i, st). (Suc i, st)) (rx_search r s))"
proof -
  have "[0..<Suc (length (x # s))] = 0 # map Suc [0..<Suc (length s)]"
    by (simp add: upt_conv_Cons map_Suc_upt del: upt_Suc)
  then show ?thesis
    unfolding rx_search_def by (simp add: rx_try_Suc del: upt_Suc split: option.splits)
qed

lemma replace_empty_Cons:
  "replace_empty r (x # s) =
     (case rx_at_start r (x # s) of
        Some (g, t) \<Rightarrow> t
      | None \<Rightarrow> x # replace_empty r s)"
  by (auto simp: replace_empty_def rx_search_Cons split: option.splits)

lemma eol_at_start:
  "rx_at_start eol_rx u = (if u = [CR, LF] \<or> u = [LF] then Some ([], []) else None)"
  by (cases u; cases "tl u")
     (auto simp: eol_rx_def rx_at_start_def counts_def CR_def LF_def split: list.splits)

lemma suffix_two_Cons: "suffix [a, b] (x # s) \<longleftrightarrow> x # s = [a, b] \<or> suffix [a, b] s"
  by (auto simp: suffix_Cons)

lemma suffix_one_Cons: "suffix [b] (x # s) \<longleftrightarrow> x # s = [b] \<or> suffix [b] s"
  by (auto simp: suffix_Cons)

text \<open>\<^verbatim>\<open>replace(/\r?\n$/, "")\<close> drops one final line break, with its carriage return.\<close>

lemma replace_empty_eol:
  "replace_empty eol_rx s =
     (if suffix [CR, LF] s then take (length s - 2) s
      else if suffix [LF] s then butlast s else s)"
proof (induction s)
  case Nil
  show ?case
    by (simp add: replace_empty_def rx_search_Nil eol_at_start)
next
  case (Cons x s)
  consider (crlf) "x # s = [CR, LF]" | (lf) "x # s = [LF]"
    | (other) "x # s \<noteq> [CR, LF]" "x # s \<noteq> [LF]"
    by blast
  then show ?case
  proof cases
    case crlf
    then show ?thesis
      by (simp add: replace_empty_Cons eol_at_start)
  next
    case lf
    then show ?thesis
      by (simp add: replace_empty_Cons eol_at_start CR_def LF_def suffix_Cons)
  next
    case other
    then have step: "replace_empty eol_rx (x # s) = x # replace_empty eol_rx s"
      by (simp add: replace_empty_Cons eol_at_start)
    have two: "suffix [CR, LF] (x # s) = suffix [CR, LF] s"
      using other(1) by (simp only: suffix_two_Cons simp_thms)
    have one: "suffix [LF] (x # s) = suffix [LF] s"
      using other(2) by (simp only: suffix_one_Cons simp_thms)
    show ?thesis
    proof (cases "suffix [CR, LF] s")
      case True
      then obtain p where "s = p @ [CR, LF]"
        by (auto simp: suffix_def)
      then have "take (length (x # s) - 2) (x # s) = x # take (length s - 2) s"
        by simp
      with True show ?thesis
        by (simp only: step two Cons.IH if_True)
    next
      case False
      show ?thesis
      proof (cases "suffix [LF] s")
        case True
        then obtain p where "s = p @ [LF]"
          by (auto simp: suffix_def)
        then have "butlast (x # s) = x # butlast s"
          by simp
        with True False show ?thesis
          by (simp only: step two one Cons.IH if_True if_False)
      next
        case no: False
        with False show ?thesis
          by (simp only: step two one Cons.IH if_False)
      qed
    qed
  qed
qed

lemma choose_proxy_unset:
  "e = None \<or> e = Some [] \<Longrightarrow>
   choose_proxy e npm =
     (if fst npm = None \<and> rx_test proxy_rx (replace_empty eol_rx (snd npm))
      then \<lparr>proxy = Some (replace_empty eol_rx (snd npm)), npm_asked = True,
            proxy_log = [''-- using proxy (npm config get proxy): ''
                           @ replace_empty eol_rx (snd npm)]\<rparr>
      else \<lparr>proxy = None, npm_asked = True, proxy_log = []\<rparr>)"
  by (cases npm) (auto simp: choose_proxy_def npm_proxy_def Let_def split: option.splits)

lemma npm_strip:
  "replace_empty eol_rx (''http://npm.example:3128'' @ [LF]) = ''http://npm.example:3128''"
  "replace_empty eol_rx (''null'' @ [LF]) = ''null''"
  by code_simp+

lemma npm_tests:
  "rx_test proxy_rx ''http://npm.example:3128''"
  "\<not> rx_test proxy_rx ''null''"
  by code_simp+

text \<open>
  C8. A non-empty \<^verbatim>\<open>http_proxy\<close> is the proxy of the request and npm is not asked,
  whatever npm would answer. When \<^verbatim>\<open>http_proxy\<close> is undefined or empty, npm is asked and
  its answer, less the final line break, is the proxy exactly when the command succeeded
  and the answer passes the test for an http(s) URL (it then starts with \<open>http://\<close> or
  \<open>https://\<close> and goes on); otherwise the request has no proxy.
\<close>

theorem proxy_precedence:
  "(p \<noteq> [] \<longrightarrow>
      proxy (choose_proxy (Some p) npm) = Some p
      \<and> \<not> npm_asked (choose_proxy (Some p) npm)
      \<and> req_proxy (request (downloadData u (Some p) npm ans)) = Some p)
   \<and> (e = None \<or> e = Some [] \<longrightarrow>
        npm_asked (choose_proxy e npm)
        \<and> proxy (choose_proxy e npm) =
            (if fst npm = None \<and> rx_test proxy_rx (replace_empty eol_rx (snd npm))
             then Some (replace_empty eol_rx (snd npm)) else None)
        \<and> (\<forall>q. proxy (choose_proxy e npm) = Some q \<longrightarrow>
              (\<exists>rest. rest \<noteq> [] \<and> (q = ''http://'' @ rest \<or> q = ''https://'' @ rest)))
        \<and> req_proxy (request (downloadData u e npm ans)) = proxy (choose_proxy e npm))"
proof -
  have env: "p \<noteq> [] \<Longrightarrow> choose_proxy (Some p) npm =
      \<lparr>proxy = Some p, npm_asked = False, proxy_log = [''-- using proxy ($http_proxy): '' @ p]\<rparr>"
    by (simp add: choose_proxy_def)
  have thread: "req_proxy (request (downloadData u x npm ans)) = proxy (choose_proxy x npm)" for x
    by (simp add: downloadData_def Let_def)
  have form: "\<exists>rest. rest \<noteq> [] \<and> (q = ''http://'' @ rest \<or> q = ''https://'' @ rest)"
    if "rx_test proxy_rx q" for q
    using that unfolding proxy_rx_iff by fastforce
  show ?thesis
    using form by (auto simp: env thread choose_proxy_unset)
qed

theorem proxy_precedence_witness:
  "''http://env.example:8080'' \<noteq> []
   \<and> proxy (choose_proxy (Some ''http://env.example:8080'')
              (None, ''http://npm.example:3128'' @ [LF])) = Some ''http://env.example:8080''
   \<and> \<not> npm_asked (choose_proxy (Some ''http://env.example:8080'')
              (None, ''http://npm.example:3128'' @ [LF]))
   \<and> npm_asked (choose_proxy None (None, ''http://npm.example:3128'' @ [LF]))
   \<and> proxy (choose_proxy None (None, ''http://npm.example:3128'' @ [LF]))
       = Some ''http://npm.example:3128''
   \<and> proxy (choose_proxy (Some []) (None, ''null'' @ [LF])) = None"
  using proxy_precedence [of "''http://env.example:8080''" "(None, ''http://npm.example:3128'' @ [LF])"
          "''u''" "\<lparr>http_error = None, status = 200, body = []\<rparr>" None]
    proxy_precedence [of "''http://env.example:8080''" "(None, ''null'' @ [LF])"
          "''u''" "\<lparr>http_error = None, status = 200, body = []\<rparr>" "Some []"]
  by (simp only: npm_strip npm_tests fst_conv snd_conv simp_thms if_True if_False) simp

section \<open>Properties of the orchestrator\<close>

text \<open>
  C9, as stated, fails when the removal fails: the managed directory exists, \<^verbatim>\<open>rimraf\<close>
  reports an error and leaves the directory, and the second run finds it, tries again and
  logs again. It is not a no-op.
\<close>

theorem uninstall_twice_counterexample:
  "existsSync (path_join ''/pkg'' ''prince'') {''/pkg'', ''/pkg/prince'', ''/pkg/prince/lib''}
   \<and> fs_after (uninstall ''/pkg'' (RmFailed (External ''EACCES'') {''/pkg'', ''/pkg/prince''})
                 {''/pkg'', ''/pkg/prince'', ''/pkg/prince/lib''})
       = {''/pkg'', ''/pkg/prince''}
   \<and> existsSync (path_join ''/pkg'' ''prince'')
        (fs_after (uninstall ''/pkg'' (RmFailed (External ''EACCES'') {''/pkg'', ''/pkg/prince''})
                     {''/pkg'', ''/pkg/prince'', ''/pkg/prince/lib''}))
   \<and> uninstall ''/pkg'' (RmFailed (External ''EACCES'') {''/pkg'', ''/pkg/prince''})
        (fs_after (uninstall ''/pkg'' (RmFailed (External ''EACCES'') {''/pkg'', ''/pkg/prince''})
                     {''/pkg'', ''/pkg/prince'', ''/pkg/prince/lib''}))
       = \<lparr>fs_after = {''/pkg'', ''/pkg/prince''},
          un_log = [''++ deleting locally unpacked PrinceXML distribution'',
                    ''** ERROR: EACCES''],
          un_failed = None\<rparr>
   \<and> uninstall ''/pkg'' (RmFailed (External ''EACCES'') {''/pkg'', ''/pkg/prince''})
        (fs_after (uninstall ''/pkg'' (RmFailed (External ''EACCES'') {''/pkg'', ''/pkg/prince''})
                     {''/pkg'', ''/pkg/prince'', ''/pkg/prince/lib''}))
       \<noteq> \<lparr>fs_after = {''/pkg'', ''/pkg/prince''}, un_log = [], un_failed = None\<rparr>"
  by (simp add: uninstall_def existsSync_def path_join_def Let_def)

text \<open>
  C9, amended. When the managed directory does not exist, \<^verbatim>\<open>uninstall\<close> changes nothing
  and logs nothing. When it exists and the removal succeeds, the directory and everything
  below it are gone and nothing else is; after such a run the directory does not exist, so
  a second run changes nothing, whatever a removal would have answered. When it exists and
  the removal fails, the error is logged and the file system is as the failed removal left
  it. No run raises an error.
\<close>

theorem uninstall_idempotent:
  "(\<not> existsSync (path_join d ''prince'') files \<longrightarrow>
      uninstall d out files = \<lparr>fs_after = files, un_log = [], un_failed = None\<rparr>)
   \<and> (existsSync (path_join d ''prince'') files \<longrightarrow>
        fs_after (uninstall d Removed files)
          = {p \<in> files. \<not> below (path_join d ''prince'') p})
   \<and> \<not> existsSync (path_join d ''prince'') (fs_after (uninstall d Removed files))
   \<and> uninstall d out (fs_after (uninstall d Removed files))
       = \<lparr>fs_after = fs_after (uninstall d Removed files), un_log = [], un_failed = None\<rparr>
   \<and> (existsSync (path_join d ''prince'') files \<longrightarrow>
        uninstall d (RmFailed e left) files
          = \<lparr>fs_after = left,
             un_log = [''++ deleting locally unpacked PrinceXML distribution'',
                       ''** ERROR: '' @ err_text e],
             un_failed = None\<rparr>)
   \<and> un_failed (uninstall d out files) = None"
proof -
  have absent: "\<not> existsSync (path_join d ''prince'') (fs_after (uninstall d Removed files))"
    by (auto simp: uninstall_def existsSync_def rimraf_def below_def Let_def)
  have noop: "uninstall d out' fs' = \<lparr>fs_after = fs', un_log = [], un_failed = None\<rparr>"
    if "\<not> existsSync (path_join d ''prince'') fs'" for out' fs'
    using that by (simp add: uninstall_def Let_def)
  have never: "un_failed (uninstall d out files) = None"
    by (cases out) (simp_all add: uninstall_def Let_def)
  have removed: "existsSync (path_join d ''prince'') files \<Longrightarrow>
      fs_after (uninstall d Removed files) = {p \<in> files. \<not> below (path_join d ''prince'') p}"
    by (auto simp: uninstall_def rimraf_def Let_def)
  have failed: "existsSync (path_join d ''prince'') files \<Longrightarrow>
      uninstall d (RmFailed e left) files
          = \<lparr>fs_after = left,
             un_log = [''++ deleting locally unpacked PrinceXML distribution'',
                       ''** ERROR: '' @ err_text e],
             un_failed = None\<rparr>"
    by (simp add: uninstall_def Let_def)
  show ?thesis
    using absent noop [OF absent] noop never removed failed by blast
qed

theorem uninstall_idempotent_witness:
  "existsSync (path_join ''/pkg'' ''prince'')
     {''/pkg'', ''/pkg/prince'', ''/pkg/prince/lib'', ''/pkg/princely''}
   \<and> fs_after (uninstall ''/pkg'' Removed
        {''/pkg'', ''/pkg/prince'', ''/pkg/prince/lib'', ''/pkg/princely''})
       = {''/pkg'', ''/pkg/princely''}
   \<and> \<not> existsSync (path_join ''/pkg'' ''prince'') {''/pkg'', ''/pkg/princely''}
   \<and> uninstall ''/pkg'' (RmFailed (External ''EACCES'') {}) {''/pkg'', ''/pkg/princely''}
       = \<lparr>fs_after = {''/pkg'', ''/pkg/princely''}, un_log = [], un_failed = None\<rparr>
   \<and> uninstall ''/pkg'' (RmFailed (External ''EACCES'') {''/pkg'', ''/pkg/prince''})
        {''/pkg'', ''/pkg/prince'', ''/pkg/prince/lib'', ''/pkg/princely''}
       = \<lparr>fs_after = {''/pkg'', ''/pkg/prince''},
          un_log = [''++ deleting locally unpacked PrinceXML distribution'',
                    ''** ERROR: EACCES''],
          un_failed = None\<rparr>"
proof -
  let ?fs = "{''/pkg'', ''/pkg/prince'', ''/pkg/prince/lib'', ''/pkg/princely''}"
  have ex: "existsSync (path_join ''/pkg'' ''prince'') ?fs"
    by (simp add: existsSync_def path_join_def)
  have set: "{p \<in> ?fs. \<not> below (path_join ''/pkg'' ''prince'') p} = {''/pkg'', ''/pkg/princely''}"
    by (auto simp: below_def path_join_def)
  have msg: "''** ERROR: '' @ err_text (External ''EACCES'') = ''** ERROR: EACCES''"
    by simp
  show ?thesis
    using uninstall_idempotent [of "''/pkg''" ?fs "RmFailed (External ''EACCES'') {}"
        "External ''EACCES''" "{''/pkg'', ''/pkg/prince''}"] ex
    by (simp only: set msg simp_thms) (elim conjE, intro conjI, simp_all only: simp_thms)
qed

section \<open>Properties of the archive installer\<close>

text \<open>What \<^verbatim>\<open>await saveFileToDisk(...)\<close> sees does not depend on the write.\<close>

lemma saveFileToDisk_returns: "promise (saveFileToDisk out) = Fulfilled ()"
  by (simp add: saveFileToDisk_def)

text \<open>
  C1. On the macOS path, when the temporary directory lists two or more entries after the
  extraction, nothing is moved into the destination, the temporary directory is removed and
  the callback ends without an error: no layout error is raised.
\<close>

theorem zip_two_entries_no_error:
  "install_darwin d
     \<lparr>mkdtemp_out = Inr t, unzip_out = Inr (), unlink_out = Inr (),
      readdir_out = Inr (a # b # others), stat_out = st, rename_out = rn,
      chmod_prince_out = c1, chmod_debug_out = c2, rmdir_out = Inr (), rmdir_again_out = r2\<rparr>
   = \<lparr>ops = [Mkdtemp (path_join d ''tmp-''), WriteFile (path_join t ''prince.zip''),
             Unzip (path_join t ''prince.zip'') t, Unlink (path_join t ''prince.zip''),
             Readdir t, Rmdir (Some t)],
      log = [], rejected = None, late = None\<rparr>"
  by (simp add: install_darwin_def darwin_body_def finish_def call_def bnd_def ret_def throw_def
        removeTmpDir_def Let_def)

text \<open>
  C6. On the macOS path, when the temporary directory cannot be created, the \<^verbatim>\<open>catch\<close>
  block still calls \<^verbatim>\<open>removeTmpDir\<close>, on the undefined \<^verbatim>\<open>tempDir\<close>; that call fails with
  a \<open>TypeError\<close>, which replaces the error of the creation.
\<close>

theorem mkdtemp_failure_cleanup:
  "install_darwin d (env\<lparr>mkdtemp_out := Inl e\<rparr>)
   = \<lparr>ops = [Mkdtemp (path_join d ''tmp-''), Rmdir None],
      log = [], rejected = Some TypeError, late = None\<rparr>"
  by (simp add: install_darwin_def darwin_catch_def finish_def call_def bnd_def ret_def throw_def
        removeTmpDir_def Let_def)






end
